theory Spec2Isabelle
  imports Main
begin

section \<open>JavaScript values used by generator.js\<close>

text \<open>
  The development embeds the configurable version of the generator (the functions
  \<open>toCamelCase\<close>, \<open>toPascalCase\<close>, \<open>mapOracleType\<close>, \<open>parseDDL\<close>, \<open>generateEntity\<close>
  and \<open>generateDTO\<close> exported by generator.js).

  Modelling conventions:
  \<^item> a JavaScript string is a \<open>string\<close>; the text is taken to be ASCII, which is all that the
    regular-expression classes \<open>\w\<close> and \<open>\d\<close> of the parser can capture;
  \<^item> the Numbers of the program are the results of \<open>parseInt\<close> and their differences:
    \<open>NaN\<close>, the two infinities, and the integers that are double-precision values;
    every integer that the program computes is rounded to the nearest double, ties to
    the even significand, and becomes an infinity from \<open>2^1024\<close> on;
  \<^item> a string has at most \<open>maxStringLength\<close> characters; building a longer one raises
    \<open>RangeError\<close> (Invalid string length). The check is made where the program can
    build a string that is longer than its input: the repeated digit, the annotation
    around it, and the two rendered texts;
  \<^item> \<open>undefined\<close> is \<open>None\<close>; \<open>a || b\<close> is written out with the falsy values of the type of
    \<open>a\<close> (\<open>undefined\<close>, the empty string, the number 0);
  \<^item> an exception is the \<open>Inl\<close> of a sum type.
\<close>

datatype js_error = RangeError

datatype number = NaN | Num int | PosInfinity | NegInfinity

text \<open>The longest string of V8 on a 64-bit platform, \<open>2^29 - 24\<close> (the constant
  \<open>buffer.constants.MAX_STRING_LENGTH\<close> of Node.js), and the check that the engine makes
  when a string is built.\<close>

definition maxStringLength :: int where
  "maxStringLength = 536870888"

definition limited :: "string \<Rightarrow> js_error + string" where
  "limited s = (if maxStringLength < int (length s) then Inl RangeError else Inr s)"

subsection \<open>Characters\<close>

definition upperLetters :: string where
  "upperLetters = ''ABCDEFGHIJKLMNOPQRSTUVWXYZ''"

definition lowerLetters :: string where
  "lowerLetters = ''abcdefghijklmnopqrstuvwxyz''"

definition digits :: string where
  "digits = ''0123456789''"

definition toLowerChar :: "char \<Rightarrow> char" where
  "toLowerChar c = (case map_of (zip upperLetters lowerLetters) c of None \<Rightarrow> c | Some d \<Rightarrow> d)"

definition toUpperChar :: "char \<Rightarrow> char" where
  "toUpperChar c = (case map_of (zip lowerLetters upperLetters) c of None \<Rightarrow> c | Some d \<Rightarrow> d)"

text \<open>The class \<open>\w\<close> is \<open>[A-Za-z0-9_]\<close>, \<open>\d\<close> is \<open>[0-9]\<close>, and \<open>\s\<close> as well as \<open>trim\<close>
  take the ASCII white space: tab, line feed, vertical tab, form feed, carriage return, space.\<close>

definition isWord :: "char \<Rightarrow> bool" where
  "isWord c = (c \<in> set (upperLetters @ lowerLetters @ digits @ ''_''))"

definition isDigit :: "char \<Rightarrow> bool" where
  "isDigit c = (c \<in> set digits)"

definition isSpace :: "char \<Rightarrow> bool" where
  "isSpace c = (c \<in> set [CHR 0x09, CHR 0x0A, CHR 0x0B, CHR 0x0C, CHR 0x0D, CHR 0x20])"

subsection \<open>String methods\<close>

definition toLowerCase :: "string \<Rightarrow> string" where
  "toLowerCase s = map toLowerChar s"

definition toUpperCase :: "string \<Rightarrow> string" where
  "toUpperCase s = map toUpperChar s"

definition startsWith :: "string \<Rightarrow> string \<Rightarrow> bool" where
  "startsWith s p = (take (length p) s = p)"

fun includesStr :: "string \<Rightarrow> string \<Rightarrow> bool" where
  "includesStr [] t = (t = [])"
| "includesStr (c # cs) t = (startsWith (c # cs) t \<or> includesStr cs t)"

text \<open>\<open>s.split(d)\<close> for a one-character separator: never an empty array.\<close>

fun consHead :: "char \<Rightarrow> string list \<Rightarrow> string list" where
  "consHead c [] = [[c]]"
| "consHead c (w # ws) = (c # w) # ws"

fun splitOn :: "char \<Rightarrow> string \<Rightarrow> string list" where
  "splitOn d [] = [[]]"
| "splitOn d (c # cs) = (if c = d then [] # splitOn d cs else consHead c (splitOn d cs))"

fun join :: "string \<Rightarrow> string list \<Rightarrow> string" where
  "join sep [] = []"
| "join sep [x] = x"
| "join sep (x # y # ys) = x @ sep @ join sep (y # ys)"

definition trim :: "string \<Rightarrow> string" where
  "trim s = rev (dropWhile isSpace (rev (dropWhile isSpace s)))"

text \<open>\<open>word.charAt(0).toUpperCase() + word.slice(1)\<close>; the empty word stays empty.\<close>

definition capitalize :: "string \<Rightarrow> string" where
  "capitalize w = (case w of [] \<Rightarrow> [] | c # cs \<Rightarrow> toUpperChar c # cs)"

subsection \<open>Numbers\<close>

text \<open>The Number value of an integer that is not negative: exact up to 53 bits; beyond,
  the 53 leading bits are kept and the rest is rounded to nearest, a tie going to the
  even significand; a result of more than 1024 bits is \<open>Infinity\<close>.\<close>

function bitLength :: "int \<Rightarrow> nat" where
  "bitLength n = (if n \<le> 0 then 0 else Suc (bitLength (n div 2)))"
  by pat_completeness auto
termination
  by (relation "measure nat") auto

declare bitLength.simps [simp del]

definition toDoubleNat :: "int \<Rightarrow> number" where
  "toDoubleNat n =
     (if bitLength n \<le> 53 then Num n
      else
        let e = bitLength n - 53;
            q = n div 2 ^ e;
            r = n mod 2 ^ e;
            half = 2 ^ (e - 1);
            v = (if half < r \<or> (r = half \<and> odd q) then q + 1 else q) * 2 ^ e
        in if 1024 < bitLength v then PosInfinity else Num v)"

definition negate :: "number \<Rightarrow> number" where
  "negate x =
     (case x of
        NaN \<Rightarrow> NaN
      | Num i \<Rightarrow> Num (- i)
      | PosInfinity \<Rightarrow> NegInfinity
      | NegInfinity \<Rightarrow> PosInfinity)"

definition toDouble :: "int \<Rightarrow> number" where
  "toDouble i = (if i < 0 then negate (toDoubleNat (- i)) else toDoubleNat i)"

text \<open>\<open>parseInt(s)\<close> with no radix: leading white space is skipped, a sign is read, the
  prefix \<open>0x\<close> or \<open>0X\<close> selects base 16, and the longest run of digits of the base is the
  value, as a Number; no digit at all gives \<open>NaN\<close>.\<close>

definition hexDigits :: "(char \<times> int) list" where
  "hexDigits =
     [(CHR ''0'', 0), (CHR ''1'', 1), (CHR ''2'', 2), (CHR ''3'', 3), (CHR ''4'', 4),
      (CHR ''5'', 5), (CHR ''6'', 6), (CHR ''7'', 7), (CHR ''8'', 8), (CHR ''9'', 9),
      (CHR ''a'', 10), (CHR ''b'', 11), (CHR ''c'', 12), (CHR ''d'', 13), (CHR ''e'', 14),
      (CHR ''f'', 15), (CHR ''A'', 10), (CHR ''B'', 11), (CHR ''C'', 12), (CHR ''D'', 13),
      (CHR ''E'', 14), (CHR ''F'', 15)]"

definition digitValue :: "int \<Rightarrow> char \<Rightarrow> int option" where
  "digitValue radix c =
     (case map_of hexDigits c of
        None \<Rightarrow> None
      | Some v \<Rightarrow> if v < radix then Some v else None)"

definition radixValue :: "int \<Rightarrow> string \<Rightarrow> int" where
  "radixValue radix ds =
     foldl (\<lambda>a c. case digitValue radix c of None \<Rightarrow> a | Some v \<Rightarrow> a * radix + v) 0 ds"

definition parseDigits :: "int \<Rightarrow> string \<Rightarrow> int option" where
  "parseDigits radix s =
     (let ds = takeWhile (\<lambda>c. digitValue radix c \<noteq> None) s
      in if ds = [] then None else Some (radixValue radix ds))"

definition parseUnsigned :: "string \<Rightarrow> int option" where
  "parseUnsigned s =
     (if startsWith s ''0x'' \<or> startsWith s ''0X'' then parseDigits 16 (drop 2 s)
      else parseDigits 10 s)"

definition parseInt :: "string \<Rightarrow> number" where
  "parseInt str =
     (let s = dropWhile isSpace str;
          neg = startsWith s ''-'';
          body = (if startsWith s ''-'' \<or> startsWith s ''+'' then drop 1 s else s)
      in case parseUnsigned body of
           None \<Rightarrow> NaN
         | Some n \<Rightarrow> toDouble (if neg then - n else n))"

text \<open>\<open>parseInt(x || 0)\<close> for \<open>x\<close> a capture group: \<open>undefined\<close> and the empty string are
  falsy, and \<open>parseInt(0)\<close> is 0.\<close>

definition parseIntOr0 :: "string option \<Rightarrow> number" where
  "parseIntOr0 x =
     (case x of None \<Rightarrow> Num 0 | Some s \<Rightarrow> if s = [] then Num 0 else parseInt s)"

text \<open>The decimal digits of an integer that is not negative, and of any integer.\<close>

function showNat :: "int \<Rightarrow> string" where
  "showNat n =
     (if n < 10 then [digits ! nat n] else showNat (n div 10) @ [digits ! nat (n mod 10)])"
  by pat_completeness auto
termination
  by (relation "measure nat") auto

declare showNat.simps [simp del]

definition showInt :: "int \<Rightarrow> string" where
  "showInt i = (if i < 0 then ''-'' @ showNat (- i) else showNat i)"

text \<open>The text of a Number inside a template literal. Below \<open>2^53\<close> it is the decimal
  digits of the integer. From there on it is the decimal number with the fewest
  significant digits that still rounds to the Number, the closest such one: of the
  multiples of \<open>10^j\<close>, \<open>j\<close> going down, the first that does, looked for on either side of
  the value. A number of more than 21 digits is printed with an exponent.\<close>

definition candidate :: "int \<Rightarrow> int \<Rightarrow> int option" where
  "candidate v p =
     (let c1 = (v div p) * p;
          c2 = (v div p + 1) * p;
          ok1 = (toDoubleNat c1 = Num v);
          ok2 = (toDoubleNat c2 = Num v)
      in if ok1 \<and> ok2 then Some (if v - c1 \<le> c2 - v then c1 else c2)
         else if ok1 then Some c1
         else if ok2 then Some c2
         else None)"

function shortestFrom :: "int \<Rightarrow> nat \<Rightarrow> int" where
  "shortestFrom v j =
     (if j = 0 then v
      else case candidate v (10 ^ j) of Some c \<Rightarrow> c | None \<Rightarrow> shortestFrom v (j - 1))"
  by pat_completeness auto
termination
  by (relation "measure snd") auto

declare shortestFrom.simps [simp del]

definition shortest :: "int \<Rightarrow> int" where
  "shortest v = shortestFrom v (length (showNat v) - 1)"

definition exponentForm :: "string \<Rightarrow> string" where
  "exponentForm ds =
     (let s = rev (dropWhile (\<lambda>c. c = CHR ''0'') (rev ds))
      in (if length s = 1 then s else take 1 s @ ''.'' @ drop 1 s)
         @ ''e+'' @ showNat (int (length ds) - 1))"

definition showDouble :: "int \<Rightarrow> string" where
  "showDouble v =
     (if v < 9007199254740992 then showNat v
      else let ds = showNat (shortest v)
           in if length ds \<le> 21 then ds else exponentForm ds)"

definition showNumber :: "number \<Rightarrow> string" where
  "showNumber x =
     (case x of
        NaN \<Rightarrow> ''NaN''
      | Num i \<Rightarrow> if i < 0 then ''-'' @ showDouble (- i) else showDouble i
      | PosInfinity \<Rightarrow> ''Infinity''
      | NegInfinity \<Rightarrow> ''-Infinity'')"

text \<open>\<open>x - y\<close>: the difference of two integers is rounded again; the difference of equal
  infinities is \<open>NaN\<close>.\<close>

definition numMinus :: "number \<Rightarrow> number \<Rightarrow> number" where
  "numMinus x y =
     (case x of
        NaN \<Rightarrow> NaN
      | Num a \<Rightarrow>
          (case y of
             NaN \<Rightarrow> NaN
           | Num b \<Rightarrow> toDouble (a - b)
           | PosInfinity \<Rightarrow> NegInfinity
           | NegInfinity \<Rightarrow> PosInfinity)
      | PosInfinity \<Rightarrow>
          (case y of NaN \<Rightarrow> NaN | PosInfinity \<Rightarrow> NaN | _ \<Rightarrow> PosInfinity)
      | NegInfinity \<Rightarrow>
          (case y of NaN \<Rightarrow> NaN | NegInfinity \<Rightarrow> NaN | _ \<Rightarrow> NegInfinity))"

text \<open>\<open>x > y\<close>: false as soon as one side is \<open>NaN\<close>.\<close>

definition numGreater :: "number \<Rightarrow> number \<Rightarrow> bool" where
  "numGreater x y =
     (case x of
        NaN \<Rightarrow> False
      | Num a \<Rightarrow> (case y of Num b \<Rightarrow> b < a | NegInfinity \<Rightarrow> True | _ \<Rightarrow> False)
      | PosInfinity \<Rightarrow> (case y of NaN \<Rightarrow> False | PosInfinity \<Rightarrow> False | _ \<Rightarrow> True)
      | NegInfinity \<Rightarrow> False)"

text \<open>\<open>'9'.repeat(n)\<close>: \<open>NaN\<close> counts as 0; a negative or infinite count raises, and so
  does a count that makes the result longer than a string can be.\<close>

definition repeatChar :: "char \<Rightarrow> number \<Rightarrow> js_error + string" where
  "repeatChar c n =
     (case n of
        NaN \<Rightarrow> Inr []
      | Num i \<Rightarrow>
          if i < 0 \<or> maxStringLength < i then Inl RangeError else Inr (replicate (nat i) c)
      | PosInfinity \<Rightarrow> Inl RangeError
      | NegInfinity \<Rightarrow> Inl RangeError)"

subsection \<open>The operator \<open>||\<close>\<close>

definition orString :: "string option \<Rightarrow> string \<Rightarrow> string" where
  "orString x d = (case x of None \<Rightarrow> d | Some s \<Rightarrow> if s = [] then d else s)"

definition orList :: "'a list option \<Rightarrow> 'a list \<Rightarrow> 'a list" where
  "orList x d = (case x of None \<Rightarrow> d | Some l \<Rightarrow> l)"

definition orInt :: "int option \<Rightarrow> int \<Rightarrow> int" where
  "orInt x d = (case x of None \<Rightarrow> d | Some i \<Rightarrow> if i = 0 then d else i)"

section \<open>Configuration\<close>

text \<open>The object read from config.json, or \<open>getDefaultConfig()\<close>. Every key may be absent;
  a boolean key that is absent is falsy; the threshold is an integer Number. The key
  \<open>fileExtensions\<close>, which no function reads, is left out.\<close>

record naming_config =
  prefixes :: "string list option"
  tablePrefixes :: "string list option"
  removeThreeLetterPrefixes :: bool

record number_mapping =
  number_default :: "string option"
  number_large :: "string option"
  number_decimal :: "string option"
  largeThreshold :: "int option"

record string_mapping =
  string_types :: "string list option"
  string_default :: "string option"

record date_mapping =
  date_types :: "string list option"
  date_default :: "string option"

record type_mapping =
  NUMBER :: "number_mapping option"
  STRING :: "string_mapping option"
  DATE :: "date_mapping option"

record validation_config =
  generateAnnotations :: bool
  stringValidation :: "string option"
  otherValidation :: "string option"
  generateSchema :: bool

record output_config =
  directory :: "string option"
  indentation :: "string option"

record config =
  naming :: "naming_config option"
  typeMapping :: "type_mapping option"
  validation :: "validation_config option"
  output' :: "output_config option"

definition getDefaultConfig :: config where
  "getDefaultConfig =
     \<lparr>naming = Some
        \<lparr>prefixes = Some [''nr'', ''cd'', ''ds'', ''dt'', ''fl'', ''vl'', ''nm'', ''tp'', ''chm'', ''pes''],
         tablePrefixes = Some [''tb''],
         removeThreeLetterPrefixes = True\<rparr>,
      typeMapping = Some
        \<lparr>NUMBER = Some
           \<lparr>number_default = Some ''Integer'', number_large = Some ''Long'',
            number_decimal = Some ''BigDecimal'', largeThreshold = Some 9\<rparr>,
         STRING = Some
           \<lparr>string_types = Some [''CHAR'', ''VARCHAR2'', ''TEXT''],
            string_default = Some ''String''\<rparr>,
         DATE = Some
           \<lparr>date_types = Some [''DATE'', ''TIMESTAMP''],
            date_default = Some ''LocalDateTime''\<rparr>\<rparr>,
      validation = Some
        \<lparr>generateAnnotations = True, stringValidation = Some ''@NotBlank'',
         otherValidation = Some ''@NotNull'', generateSchema = True\<rparr>,
      output' = Some \<lparr>directory = Some ''generated'', indentation = Some ''    ''\<rparr>\<rparr>"

text \<open>\<open>config.naming || {}\<close> and its siblings: the empty object has every key absent.\<close>

definition namingConfig :: "config \<Rightarrow> naming_config" where
  "namingConfig cfg =
     (case naming cfg of
        None \<Rightarrow> \<lparr>prefixes = None, tablePrefixes = None, removeThreeLetterPrefixes = False\<rparr>
      | Some n \<Rightarrow> n)"

definition typeConfig :: "config \<Rightarrow> type_mapping" where
  "typeConfig cfg =
     (case typeMapping cfg of
        None \<Rightarrow> \<lparr>NUMBER = None, STRING = None, DATE = None\<rparr>
      | Some t \<Rightarrow> t)"

definition validationConfig :: "config \<Rightarrow> validation_config" where
  "validationConfig cfg =
     (case validation cfg of
        None \<Rightarrow> \<lparr>generateAnnotations = False, stringValidation = None,
                 otherValidation = None, generateSchema = False\<rparr>
      | Some v \<Rightarrow> v)"

definition outputConfig :: "config \<Rightarrow> output_config" where
  "outputConfig cfg =
     (case output' cfg of None \<Rightarrow> \<lparr>directory = None, indentation = None\<rparr> | Some out \<Rightarrow> out)"

section \<open>Identifier transformer\<close>

text \<open>The constants \<open>prefixes\<close> of \<open>toCamelCase\<close> and \<open>tablePrefixes\<close> of
  \<open>toPascalCase\<close>.\<close>

definition prefixesOf :: "config \<Rightarrow> string list" where
  "prefixesOf cfg =
     orList (prefixes (namingConfig cfg))
       [''nr'', ''cd'', ''ds'', ''dt'', ''fl'', ''vl'', ''nm'', ''tp'']"

definition tablePrefixesOf :: "config \<Rightarrow> string list" where
  "tablePrefixesOf cfg = orList (tablePrefixes (namingConfig cfg)) [''tb'']"

text \<open>The loop over the known prefixes inside \<open>toCamelCase\<close>: the first token that the word
  starts with and that is strictly shorter than the word decides.\<close>

fun camelFirst :: "string list \<Rightarrow> string \<Rightarrow> string" where
  "camelFirst [] word = word"
| "camelFirst (p # ps) word =
     (if startsWith word p \<and> length word > length p
      then p @ [toUpperChar (word ! length p)] @ drop (length p + 1) word
      else camelFirst ps word)"

text \<open>The segments that remain after the optional removal of a three-letter first segment.\<close>

definition camelParts :: "config \<Rightarrow> string \<Rightarrow> string list" where
  "camelParts cfg str =
     (let parts = splitOn CHR ''_'' (toLowerCase str)
      in if removeThreeLetterPrefixes (namingConfig cfg) \<and> length (hd parts) = 3
         then tl parts else parts)"

definition toCamelCase :: "config \<Rightarrow> string \<Rightarrow> string" where
  "toCamelCase cfg str =
     join [] (map (\<lambda>(index, word).
                     if index = 0 then camelFirst (prefixesOf cfg) word else capitalize word)
                   (enumerate 0 (camelParts cfg str)))"

definition pascalParts :: "config \<Rightarrow> string \<Rightarrow> string list" where
  "pascalParts cfg str =
     (let parts = splitOn CHR ''_'' (toLowerCase str);
          parts1 = (if hd parts \<in> set (tablePrefixesOf cfg) then tl parts else parts)
      in if removeThreeLetterPrefixes (namingConfig cfg) \<and> length parts1 > 0
            \<and> length (hd parts1) = 3
         then tl parts1 else parts1)"

definition toPascalCase :: "config \<Rightarrow> string \<Rightarrow> string" where
  "toPascalCase cfg str = join [] (map capitalize (pascalParts cfg str))"

section \<open>Type mapper\<close>

record type_info =
  java :: string
  annotation :: string

definition numberConfig :: "config \<Rightarrow> number_mapping" where
  "numberConfig cfg =
     (case NUMBER (typeConfig cfg) of
        None \<Rightarrow> \<lparr>number_default = None, number_large = None, number_decimal = None,
                 largeThreshold = None\<rparr>
      | Some n \<Rightarrow> n)"

definition stringConfig :: "config \<Rightarrow> string_mapping" where
  "stringConfig cfg =
     (case STRING (typeConfig cfg) of
        None \<Rightarrow> \<lparr>string_types = None, string_default = None\<rparr>
      | Some s \<Rightarrow> s)"

definition dateConfig :: "config \<Rightarrow> date_mapping" where
  "dateConfig cfg =
     (case DATE (typeConfig cfg) of
        None \<Rightarrow> \<lparr>date_types = None, date_default = None\<rparr>
      | Some d \<Rightarrow> d)"

text \<open>The target types \<open>typeConfig.NUMBER?.decimal || 'BigDecimal'\<close> and its siblings, and
  the constants \<open>threshold\<close>, \<open>stringTypes\<close> and \<open>dateTypes\<close> of \<open>mapOracleType\<close>.\<close>

definition numberDecimal :: "config \<Rightarrow> string" where
  "numberDecimal cfg = orString (number_decimal (numberConfig cfg)) ''BigDecimal''"

definition numberLarge :: "config \<Rightarrow> string" where
  "numberLarge cfg = orString (number_large (numberConfig cfg)) ''Long''"

definition numberDefault :: "config \<Rightarrow> string" where
  "numberDefault cfg = orString (number_default (numberConfig cfg)) ''Integer''"

definition stringDefault :: "config \<Rightarrow> string" where
  "stringDefault cfg = orString (string_default (stringConfig cfg)) ''String''"

definition dateDefault :: "config \<Rightarrow> string" where
  "dateDefault cfg = orString (date_default (dateConfig cfg)) ''LocalDateTime''"

definition thresholdOf :: "config \<Rightarrow> int" where
  "thresholdOf cfg = orInt (largeThreshold (numberConfig cfg)) 9"

definition stringTypes :: "config \<Rightarrow> string list" where
  "stringTypes cfg = orList (string_types (stringConfig cfg)) [''CHAR'', ''VARCHAR2'', ''TEXT'']"

definition dateTypes :: "config \<Rightarrow> string list" where
  "dateTypes cfg = orList (date_types (dateConfig cfg)) [''DATE'']"

text \<open>The two integer branches share their annotation but for the suffix of the literal;
  \<open>'9'.repeat(precision)\<close> is evaluated only when annotations are generated, and the
  template literal around it is a string to build in its turn. The other template
  literals of \<open>mapOracleType\<close> hold one or two Numbers and stay far below the limit.\<close>

definition boundAnnotation :: "bool \<Rightarrow> number \<Rightarrow> string \<Rightarrow> js_error + string" where
  "boundAnnotation gen precision suffix =
     (if gen then
        case repeatChar CHR ''9'' precision of
          Inl e \<Rightarrow> Inl e
        | Inr nines \<Rightarrow> limited (''@Min(0) @Max('' @ nines @ suffix @ '')'')
      else Inr [])"

definition mapOracleType ::
  "config \<Rightarrow> string \<Rightarrow> string option \<Rightarrow> string option \<Rightarrow> js_error + type_info" where
  "mapOracleType cfg type0 precision0 scale0 =
     (let gen = generateAnnotations (validationConfig cfg);
          ty = (if type0 = [] then [] else toUpperCase type0);
          precision = parseIntOr0 precision0;
          scale = parseIntOr0 scale0
      in if includesStr ty ''NUMBER'' then
           if numGreater scale (Num 0) then
             Inr \<lparr>java = numberDecimal cfg,
                  annotation =
                    (if gen then ''@Digits(integer = '' @ showNumber (numMinus precision scale)
                                   @ '', fraction = '' @ showNumber scale @ '')''
                     else [])\<rparr>
           else if numGreater precision (Num (thresholdOf cfg)) then
             case boundAnnotation gen precision ''L'' of
               Inl e \<Rightarrow> Inl e
             | Inr a \<Rightarrow> Inr \<lparr>java = numberLarge cfg, annotation = a\<rparr>
           else
             case boundAnnotation gen precision [] of
               Inl e \<Rightarrow> Inl e
             | Inr a \<Rightarrow> Inr \<lparr>java = numberDefault cfg, annotation = a\<rparr>
         else if list_ex (\<lambda>t. includesStr ty t) (stringTypes cfg) then
           Inr \<lparr>java = stringDefault cfg,
                annotation =
                  (if gen then ''@Size(max = '' @ showNumber precision @ '')'' else [])\<rparr>
         else if list_ex (\<lambda>t. includesStr ty t) (dateTypes cfg) then
           Inr \<lparr>java = dateDefault cfg, annotation = []\<rparr>
         else Inr \<lparr>java = ''String'', annotation = []\<rparr>)"

section \<open>DDL parser\<close>

subsection \<open>The regular expressions\<close>

text \<open>A literal under the flag \<open>i\<close> is compared on upper-cased characters.\<close>

definition ciStartsWith :: "string \<Rightarrow> string \<Rightarrow> bool" where
  "ciStartsWith s lit = (toUpperCase (take (length lit) s) = toUpperCase lit)"

text \<open>\<open>text.match(re)\<close> without the flag \<open>g\<close>: the leftmost position at which the pattern
  matches; \<open>f\<close> is the pattern anchored at the start of its argument.\<close>

fun regexSearch :: "(string \<Rightarrow> 'a option) \<Rightarrow> string \<Rightarrow> 'a option" where
  "regexSearch f [] = f []"
| "regexSearch f (c # cs) = (case f (c # cs) of None \<Rightarrow> regexSearch f cs | Some r \<Rightarrow> Some r)"

text \<open>\<open>/CREATE TABLE (\w+)\.(\w+)/i\<close>. The greedy \<open>\w+\<close> takes the whole run of word
  characters: a shorter run would be followed by a word character, never by the dot.\<close>

definition createSchemaAt :: "string \<Rightarrow> (string \<times> string) option" where
  "createSchemaAt s =
     (if ciStartsWith s ''CREATE TABLE '' then
        let r = drop (length ''CREATE TABLE '') s;
            g1 = takeWhile isWord r;
            r1 = dropWhile isWord r;
            g2 = takeWhile isWord (drop 1 r1)
        in if g1 \<noteq> [] \<and> startsWith r1 ''.'' \<and> g2 \<noteq> [] then Some (g1, g2) else None
      else None)"

text \<open>\<open>/CREATE TABLE (\w+)/i\<close>\<close>

definition createSimpleAt :: "string \<Rightarrow> string option" where
  "createSimpleAt s =
     (if ciStartsWith s ''CREATE TABLE '' then
        let g1 = takeWhile isWord (drop (length ''CREATE TABLE '') s)
        in if g1 \<noteq> [] then Some g1 else None
      else None)"

text \<open>\<open>/PRIMARY KEY \(([^)]+)\)/i\<close>: the group is the run of characters up to the first
  closing parenthesis, which has to be there.\<close>

definition primaryKeyAt :: "string \<Rightarrow> string option" where
  "primaryKeyAt s =
     (if ciStartsWith s ''PRIMARY KEY ('' then
        let r = drop (length ''PRIMARY KEY ('') s;
            g1 = takeWhile (\<lambda>c. c \<noteq> CHR '')'') r;
            r1 = dropWhile (\<lambda>c. c \<noteq> CHR '')'') r
        in if g1 \<noteq> [] \<and> startsWith r1 '')'' then Some g1 else None
      else None)"

text \<open>The optional tail \<open>(?:\((\d+)(?:,(\d+))?\))?\<close> of the column pattern: the two groups,
  both \<open>undefined\<close> when the tail does not match as a whole.\<close>

definition precisionScale :: "string \<Rightarrow> string option \<times> string option" where
  "precisionScale r =
     (if startsWith r ''('' then
        let g3 = takeWhile isDigit (drop 1 r);
            r1 = dropWhile isDigit (drop 1 r);
            g4 = takeWhile isDigit (drop 1 r1);
            r2 = dropWhile isDigit (drop 1 r1)
        in if g3 = [] then (None, None)
           else if startsWith r1 '','' \<and> g4 \<noteq> [] \<and> startsWith r2 '')'' then (Some g3, Some g4)
           else if startsWith r1 '')'' then (Some g3, None)
           else (None, None)
      else (None, None))"

text \<open>\<open>/^(\w+)\s+(\w+)(?:\((\d+)(?:,(\d+))?\))?/\<close> on a trimmed line: the groups
  \<open>colName\<close>, \<open>colType\<close>, \<open>precision\<close>, \<open>scale\<close>.\<close>

definition colMatch :: "string \<Rightarrow> (string \<times> string \<times> string option \<times> string option) option" where
  "colMatch s =
     (let g1 = takeWhile isWord s;
          r1 = dropWhile isWord s;
          sp = takeWhile isSpace r1;
          r2 = dropWhile isSpace r1;
          g2 = takeWhile isWord r2;
          r3 = dropWhile isWord r2
      in if g1 \<noteq> [] \<and> sp \<noteq> [] \<and> g2 \<noteq> []
         then Some (g1, g2, fst (precisionScale r3), snd (precisionScale r3))
         else None)"

subsection \<open>The parsed model\<close>

record column =
  originalName :: string
  javaName :: string
  pascalName :: string
  javaType :: string
  colAnnotation :: string
  isId :: bool

record table_model =
  schema :: string
  originalTableName :: string
  className :: string
  columns :: "column list"

text \<open>The object pushed for a matched line.\<close>

definition buildColumn ::
  "config \<Rightarrow> string list \<Rightarrow> string \<times> string \<times> string option \<times> string option
     \<Rightarrow> js_error + column" where
  "buildColumn cfg pks m =
     (case m of (colName, colType, precision, scale) \<Rightarrow>
        (case mapOracleType cfg colType precision scale of
           Inl e \<Rightarrow> Inl e
         | Inr typeInfo \<Rightarrow>
             Inr \<lparr>originalName = colName,
                  javaName = toCamelCase cfg colName,
                  pascalName = capitalize (toCamelCase cfg colName),
                  javaType = java typeInfo,
                  colAnnotation = annotation typeInfo,
                  isId = (colName \<in> set pks)\<rparr>))"

text \<open>The body of \<open>lines.forEach\<close>: \<open>None\<close> when the line adds no column.\<close>

definition parseLine :: "config \<Rightarrow> string list \<Rightarrow> string \<Rightarrow> js_error + column option" where
  "parseLine cfg pks line =
     (let trimmed = trim line
      in case colMatch trimmed of
           None \<Rightarrow> Inr None
         | Some m \<Rightarrow>
             if \<not> startsWith trimmed ''CONSTRAINT'' \<and> \<not> startsWith trimmed ''CREATE''
                \<and> \<not> startsWith trimmed ''KEY'' \<and> \<not> startsWith trimmed '')''
             then (case buildColumn cfg pks m of Inl e \<Rightarrow> Inl e | Inr c \<Rightarrow> Inr (Some c))
             else Inr None)"

text \<open>The loop itself, with the array \<open>columns\<close> passed along; an exception ends it.\<close>

fun parseLines :: "config \<Rightarrow> string list \<Rightarrow> string list \<Rightarrow> column list \<Rightarrow> js_error + column list" where
  "parseLines cfg pks [] cols = Inr cols"
| "parseLines cfg pks (l # ls) cols =
     (case parseLine cfg pks l of
        Inl e \<Rightarrow> Inl e
      | Inr None \<Rightarrow> parseLines cfg pks ls cols
      | Inr (Some c) \<Rightarrow> parseLines cfg pks ls (cols @ [c]))"

definition tableOf :: "string \<Rightarrow> string \<times> string" where
  "tableOf ddl =
     (case regexSearch createSchemaAt ddl of
        Some (g1, g2) \<Rightarrow> (g1, g2)
      | None \<Rightarrow>
          (case regexSearch createSimpleAt ddl of
             Some g1 \<Rightarrow> (''dbo'', g1)
           | None \<Rightarrow> (''dbo'', ''Unknown'')))"

definition pksOf :: "string \<Rightarrow> string list" where
  "pksOf ddl =
     (case regexSearch primaryKeyAt ddl of
        None \<Rightarrow> []
      | Some g1 \<Rightarrow> map trim (splitOn CHR '','' g1))"

definition parseDDL :: "config \<Rightarrow> string \<Rightarrow> js_error + table_model" where
  "parseDDL cfg ddl =
     (case parseLines cfg (pksOf ddl) (splitOn CHR 0x0A ddl) [] of
        Inl e \<Rightarrow> Inl e
      | Inr cols \<Rightarrow>
          Inr \<lparr>schema = fst (tableOf ddl),
               originalTableName = snd (tableOf ddl),
               className = toPascalCase cfg (snd (tableOf ddl)),
               columns = cols\<rparr>)"

section \<open>Template renderer\<close>

definition indentOf :: "config \<Rightarrow> string" where
  "indentOf cfg = orString (indentation (outputConfig cfg)) ''    ''"

definition pkClass :: "table_model \<Rightarrow> string" where
  "pkClass data =
     (if length (filter isId (columns data)) > 1
      then ''@IdClass('' @ className data @ ''Id.class)'' else [])"

definition entityField :: "string \<Rightarrow> column \<Rightarrow> string" where
  \<open>entityField indent col =
     (if isId col then indent @ ''@Id\<newline>'' else [])
     @ indent @ ''@Column(name = "'' @ originalName col @ ''")\<newline>''
     @ indent @ ''private '' @ javaType col @ '' '' @ javaName col @ '';''\<close>

text \<open>The template literal of \<open>generateEntity\<close>, and the function: the text is the longest
  string that the function builds.\<close>

definition entityText :: "config \<Rightarrow> table_model \<Rightarrow> string" where
  \<open>entityText cfg data =
     (let indent = indentOf cfg
      in ''/** JAVA ENTITY **/\<newline>\<newline>@Data\<newline>@Entity\<newline>@Table(schema = "''
         @ schema data @ ''", name = "'' @ originalTableName data @ ''")\<newline>''
         @ pkClass data @ ''\<newline>public class '' @ className data
         @ '' implements Serializable {\<newline>\<newline>''
         @ indent @ ''@Serial\<newline>''
         @ indent @ ''private static final long serialVersionUID = 1L;\<newline>\<newline>''
         @ join ''\<newline>\<newline>'' (map (entityField indent) (columns data))
         @ ''\<newline>}'')\<close>

definition generateEntity :: "config \<Rightarrow> table_model \<Rightarrow> js_error + string" where
  "generateEntity cfg data = limited (entityText cfg data)"

text \<open>The constant \<open>notBlank\<close> of \<open>generateDTO\<close>: the required-field marker of a column.\<close>

definition notBlank :: "config \<Rightarrow> column \<Rightarrow> string" where
  "notBlank cfg col =
     (if javaType col = ''String''
      then orString (stringValidation (validationConfig cfg)) ''@NotBlank''
      else orString (otherValidation (validationConfig cfg)) ''@NotNull'')"

definition schemaAnnotation :: "config \<Rightarrow> string" where
  \<open>schemaAnnotation cfg =
     (if generateSchema (validationConfig cfg)
      then ''@Schema(description = " ", example = " ")'' else [])\<close>

definition dtoInterface :: "config \<Rightarrow> column \<Rightarrow> string" where
  "dtoInterface cfg col =
     (let indent = indentOf cfg
      in indent @ ''protected interface '' @ pascalName col @ '' {\<newline>''
         @ indent @ notBlank cfg col @ ''\<newline>''
         @ indent @ colAnnotation col @ ''\<newline>''
         @ indent @ schemaAnnotation cfg @ ''\<newline>''
         @ indent @ javaType col @ '' get'' @ pascalName col @ ''();\<newline>''
         @ indent @ ''}'')"

definition dtoField :: "string \<Rightarrow> column \<Rightarrow> string" where
  "dtoField indent col =
     indent @ indent @ indent @ ''private '' @ javaType col @ '' '' @ javaName col @ '';''"

text \<open>The template literal of \<open>generateDTO\<close>, and the function.\<close>

definition dtoText :: "config \<Rightarrow> table_model \<Rightarrow> string" where
  "dtoText cfg data =
     (let indent = indentOf cfg;
          interfacesList = join '', '' (map pascalName (columns data))
      in ''/** JAVA DTO **/\<newline>\<newline>public enum '' @ className data @ ''DTO {;\<newline>\<newline>''
         @ join ''\<newline>\<newline>'' (map (dtoInterface cfg) (columns data))
         @ ''\<newline>\<newline>''
         @ indent @ ''public enum Request {;\<newline>''
         @ indent @ indent @ ''@Data\<newline>''
         @ indent @ indent @ ''@EqualsAndHashCode(callSuper = true)\<newline>''
         @ indent @ indent @ ''public static class Base implements '' @ interfacesList
         @ '' {\<newline>''
         @ join ''\<newline>'' (map (dtoField indent) (columns data)) @ ''\<newline>''
         @ indent @ indent @ ''}\<newline>''
         @ ''        \<newline>''
         @ indent @ indent @ ''@Data\<newline>''
         @ indent @ indent @ ''@EqualsAndHashCode(callSuper = true)\<newline>''
         @ indent @ indent @ ''public static class Cadastro extends Base {}\<newline>''
         @ indent @ ''}\<newline>\<newline>''
         @ indent @ ''public enum Response {;\<newline>''
         @ indent @ indent @ ''public interface Buscar extends '' @ interfacesList
         @ '' {}\<newline>''
         @ indent @ ''}\<newline>}'')"

definition generateDTO :: "config \<Rightarrow> table_model \<Rightarrow> js_error + string" where
  "generateDTO cfg data = limited (dtoText cfg data)"

section \<open>Auxiliary definitions for the statements\<close>

text \<open>The type name as the prose of the specification describes it, for comparison with
  \<open>toPascalCase\<close>: every segment equal to a table-prefix token is filtered out, the
  remaining segments are capitalized and concatenated, and the unfiltered segments are
  used when the filter leaves nothing.\<close>

definition toTypeName_claimed :: "config \<Rightarrow> string \<Rightarrow> string" where
  "toTypeName_claimed cfg str =
     (let parts = splitOn CHR ''_'' (toLowerCase str);
          kept = filter (\<lambda>p. p \<notin> set (tablePrefixesOf cfg)) parts
      in concat (map capitalize (if kept = [] then parts else kept)))"

text \<open>A config.json that differs from the default in one key: the string type is \<open>Text\<close>.\<close>

definition textStringConfig :: config where
  "textStringConfig =
     getDefaultConfig
       \<lparr>typeMapping := Some
          \<lparr>NUMBER = Some
             \<lparr>number_default = Some ''Integer'', number_large = Some ''Long'',
              number_decimal = Some ''BigDecimal'', largeThreshold = Some 9\<rparr>,
           STRING = Some
             \<lparr>string_types = Some [''CHAR'', ''VARCHAR2'', ''TEXT''],
              string_default = Some ''Text''\<rparr>,
           DATE = Some
             \<lparr>date_types = Some [''DATE'', ''TIMESTAMP''],
              date_default = Some ''LocalDateTime''\<rparr>\<rparr>\<rparr>"

text \<open>A text in which no \<open>@\<close> is followed by \<open>I\<close> and which does not end in \<open>@\<close>; such
  texts are closed under concatenation and cannot contain \<open>@IdClass\<close>.\<close>

fun atSafe :: "string \<Rightarrow> bool" where
  "atSafe [] = True"
| "atSafe [c] = (c \<noteq> CHR ''@'')"
| "atSafe (c # d # r) = (\<not> (c = CHR ''@'' \<and> d = CHR ''I'') \<and> atSafe (d # r))"

section \<open>Helper facts\<close>

subsection \<open>Strings and configuration\<close>

lemma toUpperCase_guard: "(if t = [] then [] else toUpperCase t) = toUpperCase t"
  by (simp add: toUpperCase_def)

lemma join_Nil_concat: "join [] xs = concat xs"
  by (induction "[] :: string" xs rule: join.induct) simp_all

lemma default_validation:
  "validationConfig getDefaultConfig =
     \<lparr>generateAnnotations = True, stringValidation = Some ''@NotBlank'',
      otherValidation = Some ''@NotNull'', generateSchema = True\<rparr>"
  by (simp add: validationConfig_def getDefaultConfig_def)

lemma default_number:
  "numberConfig getDefaultConfig =
     \<lparr>number_default = Some ''Integer'', number_large = Some ''Long'',
      number_decimal = Some ''BigDecimal'', largeThreshold = Some 9\<rparr>"
  by (simp add: numberConfig_def typeConfig_def getDefaultConfig_def)

lemma default_threshold: "thresholdOf getDefaultConfig = 9"
  by (simp add: thresholdOf_def default_number orInt_def)

lemma default_number_types:
  "numberDefault getDefaultConfig = ''Integer''"
  "numberLarge getDefaultConfig = ''Long''"
  "numberDecimal getDefaultConfig = ''BigDecimal''"
  by (simp_all add: numberDefault_def numberLarge_def numberDecimal_def default_number
      orString_def)

text \<open>The decimal text of a natural number reads back as that number.\<close>

lemma digitValue_digits: "k < 10 \<Longrightarrow> digitValue 10 (digits ! k) = Some (int k)"
proof -
  assume "k < 10"
  then have "k \<in> {0, 1, 2, 3, 4, 5, 6, 7, 8, 9}"
    by auto
  then show ?thesis
    by (auto simp: digitValue_def hexDigits_def digits_def)
qed

lemma radixValue_snoc:
  "radixValue r (ds @ [d]) =
     (case digitValue r d of None \<Rightarrow> radixValue r ds | Some v \<Rightarrow> radixValue r ds * r + v)"
  by (simp add: radixValue_def split: option.split)

lemma radixValue_showNat: "0 \<le> n \<Longrightarrow> radixValue 10 (showNat n) = n"
proof (induction n rule: showNat.induct)
  case (1 n)
  show ?case
  proof (cases "n < 10")
    case True
    then show ?thesis
      using digitValue_digits[of "nat n"] "1.prems"
      by (simp add: showNat.simps[of n] radixValue_def)
  next
    case False
    then have "radixValue 10 (showNat (n div 10)) = n div 10"
      using 1 by simp
    moreover have "digitValue 10 (digits ! nat (n mod 10)) = Some (n mod 10)"
      using digitValue_digits[of "nat (n mod 10)"] by simp
    ultimately show ?thesis
      using False by (simp add: showNat.simps[of n] radixValue_snoc)
  qed
qed

subsection \<open>Numbers below \<open>2^53\<close> are exact\<close>

lemma bitLength_le: "n < 2 ^ k \<Longrightarrow> bitLength n \<le> k"
proof (induction k arbitrary: n)
  case 0
  then have "n \<le> 0"
    by simp
  then show ?case
    by (simp add: bitLength.simps[of n])
next
  case (Suc k)
  have "n div 2 < 2 ^ k"
    using Suc.prems by auto
  then have "bitLength (n div 2) \<le> k"
    by (rule Suc.IH)
  then show ?case
    by (simp add: bitLength.simps[of n])
qed

lemma toDoubleNat_exact: "n < 9007199254740992 \<Longrightarrow> toDoubleNat n = Num n"
proof -
  assume "n < 9007199254740992"
  then have "n < 2 ^ 53"
    by simp
  then have "bitLength n \<le> 53"
    by (rule bitLength_le)
  then show ?thesis
    by (simp add: toDoubleNat_def)
qed

lemma toDouble_exact:
  "- 9007199254740992 < i \<Longrightarrow> i < 9007199254740992 \<Longrightarrow> toDouble i = Num i"
  by (simp add: toDouble_def negate_def toDoubleNat_exact)

lemma bitLength_pos: "0 < bitLength n \<Longrightarrow> 0 < n"
  by (cases "n \<le> 0") (simp_all add: bitLength.simps[of n])


lemma showNumber_exact:
  "- 9007199254740992 < i \<Longrightarrow> i < 9007199254740992 \<Longrightarrow> showNumber (Num i) = showInt i"
  by (simp add: showNumber_def showInt_def showDouble_def)

lemma limited_short: "int (length s) \<le> maxStringLength \<Longrightarrow> limited s = Inr s"
  by (simp add: limited_def)

lemma limited_Inr: "limited s = Inr t \<Longrightarrow> t = s"
  by (simp add: limited_def split: if_splits)

subsection \<open>The identifier transformer\<close>

lemma map_enumerate_pos:
  "0 < n \<Longrightarrow> map (\<lambda>(i, w). if i = 0 then f w else g w) (enumerate n ws) = map g ws"
  by (induction ws arbitrary: n) simp_all

lemma toCamelCase_Cons:
  "camelParts cfg str = w # ws \<Longrightarrow>
   toCamelCase cfg str = camelFirst (prefixesOf cfg) w @ concat (map capitalize ws)"
  by (simp add: toCamelCase_def join_Nil_concat map_enumerate_pos)

lemma camelFirst_find:
  "find (\<lambda>p. startsWith w p \<and> length p < length w) ps = Some p \<Longrightarrow>
   camelFirst ps w = p @ [toUpperChar (w ! length p)] @ drop (length p + 1) w"
  by (induction ps) (auto split: if_splits)

lemma capital_after_prefix:
  assumes "startsWith w p" "length p < length w"
  shows "p @ [c] @ drop (length p + 1) w = w[length p := c]"
proof -
  have "take (length p) w = p"
    using assms(1) by (simp add: startsWith_def)
  then show ?thesis
    using assms(2) by (simp add: upd_conv_take_nth_drop)
qed

subsection \<open>The type mapper\<close>

lemma boundAnnotation_fits:
  assumes "0 \<le> p" "p + 15 \<le> maxStringLength" "length suffix \<le> 1"
  shows "boundAnnotation True (Num p) suffix =
     Inr (''@Min(0) @Max('' @ replicate (nat p) CHR ''9'' @ suffix @ '')'')"
proof -
  have "repeatChar CHR ''9'' (Num p) = Inr (replicate (nat p) CHR ''9'')"
    using assms(1,2) by (simp add: repeatChar_def)
  moreover have "int (length (''@Min(0) @Max('' @ replicate (nat p) CHR ''9'' @ suffix @ '')''))
      \<le> maxStringLength"
    using assms by simp
  ultimately show ?thesis
    by (simp add: boundAnnotation_def limited_short del: append.simps)
qed

lemma mapOracleType_large:
  assumes "includesStr (toUpperCase ty) ''NUMBER''"
    and "parseIntOr0 scale = Num 0"
    and "parseIntOr0 precision = Num p"
    and "thresholdOf cfg < p"
    and "0 \<le> p"
    and "p + 15 \<le> maxStringLength"
    and "generateAnnotations (validationConfig cfg)"
  shows "mapOracleType cfg ty precision scale =
      Inr \<lparr>java = numberLarge cfg,
           annotation = ''@Min(0) @Max('' @ replicate (nat p) CHR ''9'' @ ''L)''\<rparr>"
  using assms boundAnnotation_fits[of p "''L''"]
  by (simp add: mapOracleType_def toUpperCase_guard numGreater_def)

lemma mapOracleType_decimal:
  assumes "includesStr (toUpperCase ty) ''NUMBER''"
    and "parseIntOr0 scale = Num s"
    and "0 < s"
    and "s < 9007199254740992"
    and "parseIntOr0 precision = Num p"
    and "0 \<le> p"
    and "p < 9007199254740992"
    and "generateAnnotations (validationConfig cfg)"
  shows "mapOracleType cfg ty precision scale =
      Inr \<lparr>java = numberDecimal cfg,
           annotation = ''@Digits(integer = '' @ showInt (p - s)
                        @ '', fraction = '' @ showInt s @ '')''\<rparr>"
proof -
  have "numMinus (Num p) (Num s) = Num (p - s)"
    using assms(3,4,6,7) by (simp add: numMinus_def toDouble_exact)
  moreover have "showNumber (Num (p - s)) = showInt (p - s)"
    using assms(3,4,6,7) by (simp add: showNumber_exact)
  moreover have "showNumber (Num s) = showInt s"
    using assms(3,4) by (simp add: showNumber_exact)
  ultimately show ?thesis
    using assms(1,2,3,5,8)
    by (simp add: mapOracleType_def toUpperCase_guard numGreater_def)
qed

lemma mapOracleType_bare_number:
  assumes "includesStr (toUpperCase ty) ''NUMBER''"
  shows "mapOracleType getDefaultConfig ty None None =
      Inr \<lparr>java = ''Integer'', annotation = ''@Min(0) @Max()''\<rparr>"
  using assms boundAnnotation_fits[of 0 "[]"]
  by (simp add: mapOracleType_def toUpperCase_guard numGreater_def parseIntOr0_def
      default_validation default_number_types default_threshold maxStringLength_def)

subsection \<open>When no line of a DDL text makes the parser raise\<close>















lemma parseDDL_Inr:
  assumes "parseDDL cfg ddl = Inr m"
  shows "parseLines cfg (pksOf ddl) (splitOn CHR 0x0A ddl) [] = Inr (columns m)"
    and "schema m = fst (tableOf ddl)"
    and "originalTableName m = snd (tableOf ddl)"
    and "className m = toPascalCase cfg (snd (tableOf ddl))"
  using assms by (auto simp: parseDDL_def split: sum.splits)


lemma splitOn_not_Nil: "splitOn d s \<noteq> []"
proof (induction s)
  case Nil
  show ?case by simp
next
  case (Cons c s)
  then show ?case by (cases "splitOn d s") auto
qed

subsection \<open>The line of a table-level primary key\<close>

lemma startsWith_append: "startsWith s p \<Longrightarrow> s = p @ drop (length p) s"
  by (metis append_take_drop_id startsWith_def)

lemma colMatch_primary_key:
  assumes "startsWith s ''PRIMARY KEY (''"
  shows "colMatch s = Some (''PRIMARY'', ''KEY'', None, None)"
proof -
  obtain r where s: "s = ''PRIMARY KEY ('' @ r"
    using startsWith_append[OF assms] by blast
  show ?thesis
    unfolding s
    by (simp add: colMatch_def precisionScale_def startsWith_def isWord_def isSpace_def
        upperLetters_def lowerLetters_def digits_def)
qed

lemma parseLine_primary_key:
  assumes "startsWith (trim l) ''PRIMARY KEY (''"
  shows "parseLine getDefaultConfig pks l =
     Inr (Some \<lparr>originalName = ''PRIMARY'', javaName = ''primary'', pascalName = ''Primary'',
                javaType = ''String'', colAnnotation = [],
                isId = (''PRIMARY'' \<in> set pks)\<rparr>)"
proof -
  obtain r where s: "trim l = ''PRIMARY KEY ('' @ r"
    using startsWith_append[OF assms] by blast
  have a: "mapOracleType getDefaultConfig ''KEY'' None None = Inr \<lparr>java = ''String'', annotation = []\<rparr>"
    by code_simp
  have b: "toCamelCase getDefaultConfig ''PRIMARY'' = ''primary''"
    by code_simp
  have c: "capitalize ''primary'' = ''Primary''"
    by code_simp
  have d: "\<not> startsWith (trim l) ''CONSTRAINT'' \<and> \<not> startsWith (trim l) ''CREATE''
      \<and> \<not> startsWith (trim l) ''KEY'' \<and> \<not> startsWith (trim l) '')''"
    unfolding s by (simp add: startsWith_def)
  show ?thesis
    using colMatch_primary_key[OF assms] d
    by (simp add: parseLine_def Let_def buildColumn_def a b c)
qed

lemma parseLines_keeps:
  "parseLines cfg pks ls cols = Inr out \<Longrightarrow> set cols \<subseteq> set out"
proof (induction ls arbitrary: cols)
  case Nil
  then show ?case by simp
next
  case (Cons l ls)
  then show ?case
    by (fastforce split: sum.splits option.splits)
qed

lemma parseLines_member:
  "parseLines cfg pks ls cols = Inr out \<Longrightarrow> l \<in> set ls \<Longrightarrow>
   parseLine cfg pks l = Inr (Some c) \<Longrightarrow> c \<in> set out"
proof (induction ls arbitrary: cols)
  case Nil
  then show ?case by simp
next
  case (Cons x ls)
  show ?case
  proof (cases "l = x")
    case True
    then have "parseLines cfg pks ls (cols @ [c]) = Inr out"
      using Cons.prems by simp
    then show ?thesis
      using parseLines_keeps by fastforce
  next
    case False
    then show ?thesis
      using Cons by (auto split: sum.splits option.splits)
  qed
qed

subsection \<open>Texts without the composite-key marker\<close>

lemma atSafe_append: "atSafe xs \<Longrightarrow> atSafe ys \<Longrightarrow> atSafe (xs @ ys)"
proof (induction xs rule: atSafe.induct)
  case 1
  then show ?case by simp
next
  case (2 c)
  then show ?case by (cases ys) auto
next
  case (3 c d r)
  then show ?case by simp
qed

lemma atSafe_free: "CHR ''@'' \<notin> set s \<Longrightarrow> atSafe s"
  by (induction s rule: atSafe.induct) auto

lemma atSafe_join:
  "atSafe sep \<Longrightarrow> (\<And>x. x \<in> set xs \<Longrightarrow> atSafe x) \<Longrightarrow> atSafe (join sep xs)"
  by (induction sep xs rule: join.induct) (auto intro: atSafe_append)

lemma atSafe_not_IdClass: "atSafe s \<Longrightarrow> \<not> includesStr s ''@IdClass''"
  by (induction s rule: atSafe.induct) (auto simp: startsWith_def)

lemma toUpperChar_at [simp]:
  "(toUpperChar c = CHR ''@'') = (c = CHR ''@'')"
  "(CHR ''@'' = toUpperChar c) = (c = CHR ''@'')"
  by (auto simp: toUpperChar_def lowerLetters_def upperLetters_def split: if_splits)

lemma toLowerChar_at [simp]:
  "(toLowerChar c = CHR ''@'') = (c = CHR ''@'')"
  "(CHR ''@'' = toLowerChar c) = (c = CHR ''@'')"
  by (auto simp: toLowerChar_def lowerLetters_def upperLetters_def split: if_splits)

lemma isWord_not_at: "isWord c \<Longrightarrow> c \<noteq> CHR ''@''"
  by (auto simp: isWord_def lowerLetters_def upperLetters_def digits_def)

lemma takeWhile_isWord_free: "CHR ''@'' \<notin> set (takeWhile isWord s)"
  using isWord_not_at by (auto dest: set_takeWhileD)

lemma toLowerCase_free: "CHR ''@'' \<notin> set s \<Longrightarrow> CHR ''@'' \<notin> set (toLowerCase s)"
  by (induction s) (auto simp: toLowerCase_def)

lemma capitalize_free: "CHR ''@'' \<notin> set w \<Longrightarrow> CHR ''@'' \<notin> set (capitalize w)"
  by (cases w) (auto simp: capitalize_def)

lemma consHead_chars: "x \<in> set w \<Longrightarrow> w \<in> set (consHead c xs) \<Longrightarrow> x = c \<or> (\<exists>v \<in> set xs. x \<in> set v)"
  by (cases xs) auto

lemma splitOn_chars: "w \<in> set (splitOn d s) \<Longrightarrow> x \<in> set w \<Longrightarrow> x \<in> set s"
proof (induction s arbitrary: w)
  case Nil
  then show ?case by simp
next
  case (Cons c s)
  show ?case
  proof (cases "c = d")
    case True
    then show ?thesis using Cons by auto
  next
    case False
    then have "w \<in> set (consHead c (splitOn d s))"
      using Cons.prems(1) by simp
    then have "x = c \<or> (\<exists>v \<in> set (splitOn d s). x \<in> set v)"
      using Cons.prems(2) consHead_chars by blast
    then show ?thesis using Cons.IH by auto
  qed
qed

lemma splitOn_free: "CHR ''@'' \<notin> set s \<Longrightarrow> w \<in> set (splitOn d s) \<Longrightarrow> CHR ''@'' \<notin> set w"
  using splitOn_chars by blast

lemma in_set_tl: "x \<in> set (tl xs) \<Longrightarrow> x \<in> set xs"
  by (cases xs) auto

lemma enumerate_snd: "(i, w) \<in> set (enumerate n xs) \<Longrightarrow> w \<in> set xs"
  by (induction xs arbitrary: n) auto

lemma camelFirst_free:
  "CHR ''@'' \<notin> set w \<Longrightarrow> CHR ''@'' \<notin> set (camelFirst ps w)"
proof (induction ps)
  case Nil
  then show ?case by simp
next
  case (Cons p ps)
  show ?case
  proof (cases "startsWith w p \<and> length w > length p")
    case True
    then have "set p \<subseteq> set w"
      by (metis set_take_subset startsWith_def)
    moreover have "set (drop (length p + 1) w) \<subseteq> set w"
      by (rule set_drop_subset)
    moreover have "w ! length p \<noteq> CHR ''@''"
      using True Cons.prems nth_mem by metis
    ultimately show ?thesis using True Cons.prems by auto
  next
    case False
    then show ?thesis using Cons by auto
  qed
qed

lemma camelParts_free:
  assumes "CHR ''@'' \<notin> set s" "w \<in> set (camelParts cfg s)"
  shows "CHR ''@'' \<notin> set w"
proof -
  have "w \<in> set (splitOn CHR ''_'' (toLowerCase s))"
    using assms(2) by (auto simp: camelParts_def Let_def split: if_splits dest: in_set_tl)
  then show ?thesis
    using splitOn_free toLowerCase_free assms(1) by blast
qed

lemma toCamelCase_free:
  assumes "CHR ''@'' \<notin> set s"
  shows "CHR ''@'' \<notin> set (toCamelCase cfg s)"
proof -
  have "CHR ''@'' \<notin> set w" if "(i, w) \<in> set (enumerate 0 (camelParts cfg s))" for i w
    using camelParts_free[OF assms enumerate_snd[OF that]] .
  then show ?thesis
    using camelFirst_free capitalize_free
    by (fastforce simp: toCamelCase_def join_Nil_concat split: if_splits)
qed

lemma pascalParts_free:
  assumes "CHR ''@'' \<notin> set s" "w \<in> set (pascalParts cfg s)"
  shows "CHR ''@'' \<notin> set w"
proof -
  have "w \<in> set (splitOn CHR ''_'' (toLowerCase s))"
    using assms(2) by (auto simp: pascalParts_def Let_def split: if_splits dest: in_set_tl)
  then show ?thesis
    using splitOn_free toLowerCase_free assms(1) by blast
qed

lemma toPascalCase_free:
  assumes "CHR ''@'' \<notin> set s"
  shows "CHR ''@'' \<notin> set (toPascalCase cfg s)"
  using pascalParts_free[OF assms] capitalize_free
  by (auto simp: toPascalCase_def join_Nil_concat)

lemma regexSearch_Some: "regexSearch f s = Some r \<Longrightarrow> \<exists>t. f t = Some r"
  by (induction s) (auto split: option.splits)

lemma tableOf_free:
  "CHR ''@'' \<notin> set (fst (tableOf ddl))" "CHR ''@'' \<notin> set (snd (tableOf ddl))"
proof -
  have a: "regexSearch createSchemaAt ddl = Some (g1, g2) \<Longrightarrow>
      CHR ''@'' \<notin> set g1 \<and> CHR ''@'' \<notin> set g2" for g1 g2
    using takeWhile_isWord_free
    by (auto dest!: regexSearch_Some simp: createSchemaAt_def Let_def split: if_splits)
  have b: "regexSearch createSimpleAt ddl = Some g1 \<Longrightarrow> CHR ''@'' \<notin> set g1" for g1
    using takeWhile_isWord_free
    by (auto dest!: regexSearch_Some simp: createSimpleAt_def Let_def split: if_splits)
  show "CHR ''@'' \<notin> set (fst (tableOf ddl))"
    using a b by (auto simp: tableOf_def split: option.splits)
  show "CHR ''@'' \<notin> set (snd (tableOf ddl))"
    using a b by (auto simp: tableOf_def split: option.splits)
qed

lemma mapOracleType_java:
  "mapOracleType cfg ty p sc = Inr t \<Longrightarrow>
   java t \<in> {numberDecimal cfg, numberLarge cfg, numberDefault cfg, stringDefault cfg,
             dateDefault cfg, ''String''}"
  by (auto simp: mapOracleType_def Let_def split: if_splits sum.splits)


lemma colMatch_name: "colMatch s = Some (n, ty, p, sc) \<Longrightarrow> n = takeWhile isWord s"
  by (simp add: colMatch_def Let_def split: if_splits)

lemma parseLine_column:
  assumes "parseLine cfg pks l = Inr (Some c)"
  shows "(isId c \<longrightarrow> originalName c \<in> set pks) \<and> CHR ''@'' \<notin> set (originalName c) \<and>
     CHR ''@'' \<notin> set (javaName c) \<and>
     javaType c \<in> {numberDecimal cfg, numberLarge cfg, numberDefault cfg, stringDefault cfg,
                   dateDefault cfg, ''String''}"
proof -
  obtain n ty p sc where m: "colMatch (trim l) = Some (n, ty, p, sc)"
    using assms by (cases "colMatch (trim l)") (auto simp: parseLine_def)
  then have b: "buildColumn cfg pks (n, ty, p, sc) = Inr c"
    using assms by (auto simp: parseLine_def Let_def split: if_splits sum.splits)
  then obtain t where t: "mapOracleType cfg ty p sc = Inr t"
    and c: "c = \<lparr>originalName = n, javaName = toCamelCase cfg n,
                 pascalName = capitalize (toCamelCase cfg n), javaType = java t,
                 colAnnotation = annotation t, isId = (n \<in> set pks)\<rparr>"
    by (auto simp: buildColumn_def split: sum.splits)
  have n: "CHR ''@'' \<notin> set n"
    using colMatch_name[OF m] takeWhile_isWord_free by simp
  show ?thesis
    using n toCamelCase_free[OF n] mapOracleType_java[OF t] by (simp add: c)
qed

lemma parseLines_all:
  assumes "parseLines cfg pks ls cols = Inr out"
    and "\<And>c. c \<in> set cols \<Longrightarrow> P c"
    and "\<And>l c. parseLine cfg pks l = Inr (Some c) \<Longrightarrow> P c"
  shows "\<forall>c \<in> set out. P c"
  using assms(1,2)
proof (induction ls arbitrary: cols)
  case Nil
  then show ?case by simp
next
  case (Cons l ls)
  show ?case
  proof (cases "parseLine cfg pks l")
    case (Inl e)
    then show ?thesis using Cons.prems by simp
  next
    case (Inr r)
    show ?thesis
    proof (cases r)
      case None
      then show ?thesis using Cons Inr by simp
    next
      case (Some c)
      then have "parseLines cfg pks ls (cols @ [c]) = Inr out"
        using Cons.prems(1) Inr by simp
      moreover have "\<And>x. x \<in> set (cols @ [c]) \<Longrightarrow> P x"
        using Cons.prems(2) assms(3) Inr Some by auto
      ultimately show ?thesis by (rule Cons.IH)
    qed
  qed
qed

lemma entityField_safe:
  assumes "\<not> isId c" "CHR ''@'' \<notin> set indent" "CHR ''@'' \<notin> set (originalName c)"
    "CHR ''@'' \<notin> set (javaName c)" "CHR ''@'' \<notin> set (javaType c)"
  shows "atSafe (entityField indent c)"
  unfolding entityField_def if_not_P[OF assms(1)]
  by (intro atSafe_append) (simp_all add: atSafe_free assms)

lemma entityText_safe:
  assumes "pkClass data = []" "CHR ''@'' \<notin> set (indentOf cfg)"
    "CHR ''@'' \<notin> set (schema data)" "CHR ''@'' \<notin> set (originalTableName data)"
    "CHR ''@'' \<notin> set (className data)"
    "\<And>c. c \<in> set (columns data) \<Longrightarrow> atSafe (entityField (indentOf cfg) c)"
  shows "atSafe (entityText cfg data)"
  unfolding entityText_def Let_def assms(1)
  by (intro atSafe_append atSafe_join) (auto simp: atSafe_free assms)

lemma pkClass_no_id: "(\<forall>c \<in> set (columns data). \<not> isId c) \<Longrightarrow> pkClass data = []"
  by (simp add: pkClass_def filter_False)

lemma pksOf_none: "regexSearch primaryKeyAt ddl = None \<Longrightarrow> pksOf ddl = []"
  by (simp add: pksOf_def)

section \<open>The claims\<close>

text \<open>
  C1 (as amended). \<open>toPascalCase\<close> lower-cases the identifier and splits it at the
  underscores. It removes the first segment when that segment is a table-prefix token,
  and then, when the option to strip three-letter prefixes is on, the segment that is
  now first when it has exactly three characters. Every remaining segment is capitalized
  and the segments are concatenated. No later segment is filtered and there is no
  fallback: the result is empty when no segment remains.
\<close>

theorem toPascalCase_leading_prefix_only:
  "toPascalCase cfg str =
     (let parts = splitOn CHR ''_'' (toLowerCase str);
          k1 = (if hd parts \<in> set (tablePrefixesOf cfg) then 1 else 0);
          k2 = (if removeThreeLetterPrefixes (namingConfig cfg) \<and> k1 < length parts
                   \<and> length (parts ! k1) = 3 then 1 else 0)
      in concat (map capitalize (drop (k1 + k2) parts)))"
proof -
  obtain w ws where p: "splitOn CHR ''_'' (toLowerCase str) = w # ws"
    using splitOn_not_Nil[of "CHR ''_''" "toLowerCase str"] by (cases "splitOn CHR ''_'' (toLowerCase str)") auto
  show ?thesis
    by (cases ws) (auto simp: toPascalCase_def pascalParts_def join_Nil_concat p Let_def)
qed

theorem toPascalCase_leading_prefix_only_witness:
  "toPascalCase getDefaultConfig ''TB_CLIENTE'' = ''Cliente''"
proof -
  have "(let parts = splitOn CHR ''_'' (toLowerCase ''TB_CLIENTE'');
          k1 = (if hd parts \<in> set (tablePrefixesOf getDefaultConfig) then 1 else 0);
          k2 = (if removeThreeLetterPrefixes (namingConfig getDefaultConfig) \<and> k1 < length parts
                   \<and> length (parts ! k1) = 3 then 1 else 0)
      in concat (map capitalize (drop (k1 + k2) parts))) = ''Cliente''"
    by code_simp
  then show ?thesis
    by (simp only: toPascalCase_leading_prefix_only)
qed

text \<open>The claim as stated fails: a table-prefix token that is not the first segment stays
  in the name, and the identifier \<open>tb\<close> gives the empty type name.\<close>

theorem toPascalCase_inner_prefix_counterexample:
  "toPascalCase getDefaultConfig ''cliente_tb'' = ''ClienteTb'' \<and>
   toTypeName_claimed getDefaultConfig ''cliente_tb'' = ''Cliente'' \<and>
   toPascalCase getDefaultConfig ''tb'' = [] \<and>
   toTypeName_claimed getDefaultConfig ''tb'' = ''Tb''"
  by code_simp

text \<open>
  C2. The marker of a column is chosen by comparing its target type with the literal
  \<open>String\<close>, not with the configured string type. With the string type configured as
  \<open>Text\<close>, the column \<open>NM_CLIENTE VARCHAR2(100)\<close> resolves to \<open>Text\<close>, the configured string
  type, and yet its interface carries \<open>@NotNull\<close>, the marker of the other types.
\<close>

theorem generateDTO_marker_for_custom_string_type:
  \<open>stringDefault textStringConfig = ''Text'' \<and>
   parseDDL textStringConfig ''CREATE TABLE TB_CLIENTE (\<newline>  NM_CLIENTE VARCHAR2(100)\<newline>)'' =
     Inr \<lparr>schema = ''dbo'', originalTableName = ''TB_CLIENTE'', className = ''Cliente'',
          columns = [\<lparr>originalName = ''NM_CLIENTE'', javaName = ''nmCliente'',
                      pascalName = ''NmCliente'', javaType = ''Text'',
                      colAnnotation = ''@Size(max = 100)'', isId = False\<rparr>]\<rparr> \<and>
   notBlank textStringConfig
     \<lparr>originalName = ''NM_CLIENTE'', javaName = ''nmCliente'', pascalName = ''NmCliente'',
      javaType = ''Text'', colAnnotation = ''@Size(max = 100)'', isId = False\<rparr> = ''@NotNull'' \<and>
   generateDTO textStringConfig
     \<lparr>schema = ''dbo'', originalTableName = ''TB_CLIENTE'', className = ''Cliente'',
      columns = [\<lparr>originalName = ''NM_CLIENTE'', javaName = ''nmCliente'',
                  pascalName = ''NmCliente'', javaType = ''Text'',
                  colAnnotation = ''@Size(max = 100)'', isId = False\<rparr>]\<rparr> =
     Inr ''/** JAVA DTO **/\<newline>\<newline>public enum ClienteDTO {;\<newline>\<newline>    protected interface NmCliente {\<newline>    @NotNull\<newline>    @Size(max = 100)\<newline>    @Schema(description = " ", example = " ")\<newline>    Text getNmCliente();\<newline>    }\<newline>\<newline>    public enum Request {;\<newline>        @Data\<newline>        @EqualsAndHashCode(callSuper = true)\<newline>        public static class Base implements NmCliente {\<newline>            private Text nmCliente;\<newline>        }\<newline>        \<newline>        @Data\<newline>        @EqualsAndHashCode(callSuper = true)\<newline>        public static class Cadastro extends Base {}\<newline>    }\<newline>\<newline>    public enum Response {;\<newline>        public interface Buscar extends NmCliente {}\<newline>    }\<newline>}''\<close>
  by code_simp

text \<open>
  C3 (as amended). Under the default configuration (threshold 9, annotations on) a
  column \<open>NUMBER(10)\<close> maps to \<open>Long\<close> with the bound \<open>@Min(0) @Max(9999999999L)\<close>: ten
  nines, followed by the suffix of a long literal. In general a type name containing
  \<open>NUMBER\<close> (in any case) with scale 0 and a precision above 9 maps to \<open>Long\<close>, and the
  literal of the upper bound is the digit 9 repeated precision times, as long as the
  annotation still is a string: its 15 other characters and the nines together do not
  exceed \<open>maxStringLength\<close>. The same holds under every configuration that generates
  annotations, with its own threshold and large type, for a precision that is above the
  threshold and not negative.
\<close>

theorem mapOracleType_number_large:
  "thresholdOf getDefaultConfig = 9 \<and>
   mapOracleType getDefaultConfig ''NUMBER'' (Some ''10'') None =
     Inr \<lparr>java = ''Long'', annotation = ''@Min(0) @Max(9999999999L)''\<rparr> \<and>
   (\<forall>ty precision scale p.
      includesStr (toUpperCase ty) ''NUMBER'' \<and> parseIntOr0 scale = Num 0 \<and>
      parseIntOr0 precision = Num p \<and> 9 < p \<and> p + 15 \<le> maxStringLength \<longrightarrow>
      mapOracleType getDefaultConfig ty precision scale =
        Inr \<lparr>java = ''Long'',
             annotation = ''@Min(0) @Max('' @ replicate (nat p) CHR ''9'' @ ''L)''\<rparr>) \<and>
   (\<forall>cfg ty precision scale p.
      includesStr (toUpperCase ty) ''NUMBER'' \<and> parseIntOr0 scale = Num 0 \<and>
      parseIntOr0 precision = Num p \<and> thresholdOf cfg < p \<and> 0 \<le> p \<and>
      p + 15 \<le> maxStringLength \<and> generateAnnotations (validationConfig cfg) \<longrightarrow>
      mapOracleType cfg ty precision scale =
        Inr \<lparr>java = numberLarge cfg,
             annotation = ''@Min(0) @Max('' @ replicate (nat p) CHR ''9'' @ ''L)''\<rparr>)"
proof (intro conjI allI impI)
  show "thresholdOf getDefaultConfig = 9"
    by (rule default_threshold)
  show "mapOracleType getDefaultConfig ''NUMBER'' (Some ''10'') None =
     Inr \<lparr>java = ''Long'', annotation = ''@Min(0) @Max(9999999999L)''\<rparr>"
    by code_simp
next
  fix ty precision scale p
  assume "includesStr (toUpperCase ty) ''NUMBER'' \<and> parseIntOr0 scale = Num 0 \<and>
      parseIntOr0 precision = Num p \<and> 9 < p \<and> p + 15 \<le> maxStringLength"
  then show "mapOracleType getDefaultConfig ty precision scale =
        Inr \<lparr>java = ''Long'',
             annotation = ''@Min(0) @Max('' @ replicate (nat p) CHR ''9'' @ ''L)''\<rparr>"
    using mapOracleType_large[of ty scale precision p getDefaultConfig]
    by (simp add: default_threshold default_validation default_number_types)
next
  fix cfg ty precision scale p
  assume "includesStr (toUpperCase ty) ''NUMBER'' \<and> parseIntOr0 scale = Num 0 \<and>
      parseIntOr0 precision = Num p \<and> thresholdOf cfg < p \<and> 0 \<le> p \<and>
      p + 15 \<le> maxStringLength \<and> generateAnnotations (validationConfig cfg)"
  then show "mapOracleType cfg ty precision scale =
        Inr \<lparr>java = numberLarge cfg,
             annotation = ''@Min(0) @Max('' @ replicate (nat p) CHR ''9'' @ ''L)''\<rparr>"
    using mapOracleType_large by blast
qed

theorem mapOracleType_number_large_witness:
  "includesStr (toUpperCase ''number'') ''NUMBER'' \<and> parseIntOr0 None = Num 0 \<and>
   parseIntOr0 (Some ''12'') = Num 12 \<and> thresholdOf getDefaultConfig < 12 \<and> (0::int) \<le> 12 \<and>
   12 + 15 \<le> maxStringLength \<and>
   generateAnnotations (validationConfig getDefaultConfig) \<and>
   mapOracleType getDefaultConfig ''number'' (Some ''12'') None =
     Inr \<lparr>java = ''Long'', annotation = ''@Min(0) @Max(999999999999L)''\<rparr>"
proof -
  have h1: "includesStr (toUpperCase ''number'') ''NUMBER''"
    by code_simp
  have h2: "parseIntOr0 None = Num 0"
    by (simp add: parseIntOr0_def)
  have h3: "parseIntOr0 (Some ''12'') = Num 12"
    by code_simp
  have h4: "thresholdOf getDefaultConfig < 12"
    by (simp add: default_threshold)
  have h5: "generateAnnotations (validationConfig getDefaultConfig)"
    by (simp add: default_validation)
  have h6: "replicate (nat 12) CHR ''9'' = ''999999999999''"
    by code_simp
  have h7: "12 + 15 \<le> maxStringLength"
    by (simp add: maxStringLength_def)
  have "mapOracleType getDefaultConfig ''number'' (Some ''12'') None =
      Inr \<lparr>java = numberLarge getDefaultConfig,
           annotation = ''@Min(0) @Max('' @ replicate (nat 12) CHR ''9'' @ ''L)''\<rparr>"
    by (rule mapOracleType_number_large[THEN conjunct2, THEN conjunct2, THEN conjunct2,
          rule_format])
      (simp add: h1 h2 h3 h4 h5 maxStringLength_def)
  then show ?thesis
    using h1 h2 h3 h4 h5 h6 h7 by (simp add: default_number_types)
qed

text \<open>The claim as stated fails where the literal cannot be built: for \<open>NUMBER(9999999999)\<close>
  the scale is 0 and the precision is above the threshold, and \<open>'9'.repeat(precision)\<close>
  raises \<open>RangeError\<close> instead of giving the nines.\<close>

theorem mapOracleType_number_large_counterexample:
  "includesStr (toUpperCase ''NUMBER'') ''NUMBER'' \<and> parseIntOr0 None = Num 0 \<and>
   parseIntOr0 (Some ''9999999999'') = Num 9999999999 \<and>
   thresholdOf getDefaultConfig < 9999999999 \<and>
   mapOracleType getDefaultConfig ''NUMBER'' (Some ''9999999999'') None = Inl RangeError"
  by code_simp

text \<open>
  C4 (as amended). Under the default configuration a column \<open>NUMBER(15,2)\<close> maps to
  \<open>BigDecimal\<close> with \<open>@Digits(integer = 13, fraction = 2)\<close>. In general, under any
  configuration that generates annotations, a type name containing \<open>NUMBER\<close> with a scale
  above 0 maps to the configured decimal type; when precision and scale are below
  \<open>2^53 = 9007199254740992\<close>, where every integer is a Number, the integer-digit count
  is precision minus scale in decimal digits (negative when the scale is the larger one)
  and the fraction-digit count is the scale.
\<close>

theorem mapOracleType_number_decimal:
  "mapOracleType getDefaultConfig ''NUMBER'' (Some ''15'') (Some ''2'') =
     Inr \<lparr>java = ''BigDecimal'', annotation = ''@Digits(integer = 13, fraction = 2)''\<rparr> \<and>
   (\<forall>cfg ty precision scale p s.
      includesStr (toUpperCase ty) ''NUMBER'' \<and> parseIntOr0 scale = Num s \<and> 0 < s \<and>
      s < 9007199254740992 \<and> parseIntOr0 precision = Num p \<and> 0 \<le> p \<and>
      p < 9007199254740992 \<and> generateAnnotations (validationConfig cfg) \<longrightarrow>
      mapOracleType cfg ty precision scale =
        Inr \<lparr>java = numberDecimal cfg,
             annotation = ''@Digits(integer = '' @ showInt (p - s)
                          @ '', fraction = '' @ showInt s @ '')''\<rparr>)"
proof (intro conjI allI impI)
  show "mapOracleType getDefaultConfig ''NUMBER'' (Some ''15'') (Some ''2'') =
     Inr \<lparr>java = ''BigDecimal'', annotation = ''@Digits(integer = 13, fraction = 2)''\<rparr>"
    by code_simp
next
  fix cfg ty precision scale p s
  assume "includesStr (toUpperCase ty) ''NUMBER'' \<and> parseIntOr0 scale = Num s \<and> 0 < s \<and>
      s < 9007199254740992 \<and> parseIntOr0 precision = Num p \<and> 0 \<le> p \<and>
      p < 9007199254740992 \<and> generateAnnotations (validationConfig cfg)"
  then show "mapOracleType cfg ty precision scale =
        Inr \<lparr>java = numberDecimal cfg,
             annotation = ''@Digits(integer = '' @ showInt (p - s)
                          @ '', fraction = '' @ showInt s @ '')''\<rparr>"
    using mapOracleType_decimal by blast
qed

theorem mapOracleType_number_decimal_witness:
  "includesStr (toUpperCase ''Number'') ''NUMBER'' \<and> parseIntOr0 (Some ''3'') = Num 3 \<and>
   (0::int) < 3 \<and> (3::int) < 9007199254740992 \<and> parseIntOr0 (Some ''2'') = Num 2 \<and>
   (0::int) \<le> 2 \<and> (2::int) < 9007199254740992 \<and>
   generateAnnotations (validationConfig getDefaultConfig) \<and>
   mapOracleType getDefaultConfig ''Number'' (Some ''2'') (Some ''3'') =
     Inr \<lparr>java = ''BigDecimal'', annotation = ''@Digits(integer = -1, fraction = 3)''\<rparr>"
proof -
  have h1: "includesStr (toUpperCase ''Number'') ''NUMBER''"
    by code_simp
  have h2: "parseIntOr0 (Some ''3'') = Num 3"
    by code_simp
  have h3: "parseIntOr0 (Some ''2'') = Num 2"
    by code_simp
  have h4: "generateAnnotations (validationConfig getDefaultConfig)"
    by (simp add: default_validation)
  have h5: "showInt (2 - 3) = ''-1''"
    by code_simp
  have h6: "showInt 3 = ''3''"
    by code_simp
  have "mapOracleType getDefaultConfig ''Number'' (Some ''2'') (Some ''3'') =
      Inr \<lparr>java = numberDecimal getDefaultConfig,
           annotation = ''@Digits(integer = '' @ showInt (2 - 3)
                        @ '', fraction = '' @ showInt 3 @ '')''\<rparr>"
    by (rule mapOracleType_number_decimal[THEN conjunct2, rule_format])
      (simp add: h1 h2 h3 h4)
  then show ?thesis
    using h1 h2 h3 h4 by (simp only: h5 h6 default_number_types) simp
qed

text \<open>The claim as stated fails above \<open>2^53\<close>: the precision of \<open>NUMBER(9007199254740993,2)\<close>
  is read as the Number 9007199254740992, and the integer-digit count is
  9007199254740990, not the difference 9007199254740991 of the declared numbers.\<close>

theorem mapOracleType_number_decimal_counterexample:
  "parseIntOr0 (Some ''9007199254740993'') = Num 9007199254740992 \<and>
   parseIntOr0 (Some ''2'') = Num 2 \<and>
   mapOracleType getDefaultConfig ''NUMBER'' (Some ''9007199254740993'') (Some ''2'') =
     Inr \<lparr>java = ''BigDecimal'',
          annotation = ''@Digits(integer = 9007199254740990, fraction = 2)''\<rparr> \<and>
   showInt (9007199254740993 - 2) = ''9007199254740991''"
  by code_simp

text \<open>
  C5. With the default configuration \<open>nrcliente\<close> becomes \<open>nrCliente\<close>. In general, when
  \<open>w\<close> is the first remaining segment and \<open>p\<close> is the first token of the configured prefix
  list that \<open>w\<close> starts with and that is strictly shorter than \<open>w\<close>, the result starts with
  \<open>w\<close> in which exactly the character at position \<open>length p\<close> is upper-cased; the other
  segments follow, each capitalized.
\<close>

theorem toCamelCase_glued_prefix:
  "toCamelCase getDefaultConfig ''nrcliente'' = ''nrCliente'' \<and>
   (\<forall>cfg str w ws p.
      camelParts cfg str = w # ws \<and>
      find (\<lambda>p. startsWith w p \<and> length p < length w) (prefixesOf cfg) = Some p \<longrightarrow>
      toCamelCase cfg str =
        w[length p := toUpperChar (w ! length p)] @ concat (map capitalize ws))"
proof (intro conjI allI impI)
  show "toCamelCase getDefaultConfig ''nrcliente'' = ''nrCliente''"
    by code_simp
next
  fix cfg str w ws p
  assume h: "camelParts cfg str = w # ws \<and>
      find (\<lambda>p. startsWith w p \<and> length p < length w) (prefixesOf cfg) = Some p"
  then have "startsWith w p \<and> length p < length w"
    by (auto dest: find_Some_iff[THEN iffD1])
  then have "camelFirst (prefixesOf cfg) w = w[length p := toUpperChar (w ! length p)]"
    using h camelFirst_find[of w "prefixesOf cfg" p] capital_after_prefix[of w p] by simp
  then show "toCamelCase cfg str =
      w[length p := toUpperChar (w ! length p)] @ concat (map capitalize ws)"
    using h by (simp add: toCamelCase_Cons)
qed

theorem toCamelCase_glued_prefix_witness:
  "camelParts getDefaultConfig ''cdstatus_pedido'' = [''cdstatus'', ''pedido''] \<and>
   find (\<lambda>p. startsWith ''cdstatus'' p \<and> length p < length ''cdstatus'')
     (prefixesOf getDefaultConfig) = Some ''cd'' \<and>
   toCamelCase getDefaultConfig ''cdstatus_pedido'' = ''cdStatusPedido''"
proof -
  have h1: "camelParts getDefaultConfig ''cdstatus_pedido'' = [''cdstatus'', ''pedido'']"
    by code_simp
  have h2: "find (\<lambda>p. startsWith ''cdstatus'' p \<and> length p < length ''cdstatus'')
     (prefixesOf getDefaultConfig) = Some ''cd''"
    by code_simp
  have h3: "''cdstatus''[length ''cd'' := toUpperChar (''cdstatus'' ! length ''cd'')]
      @ concat (map capitalize [''pedido'']) = ''cdStatusPedido''"
    by code_simp
  have "toCamelCase getDefaultConfig ''cdstatus_pedido'' =
      ''cdstatus''[length ''cd'' := toUpperChar (''cdstatus'' ! length ''cd'')]
      @ concat (map capitalize [''pedido''])"
    by (rule toCamelCase_glued_prefix[THEN conjunct2, rule_format]) (simp only: h1 h2 simp_thms)
  then show ?thesis
    using h1 h2 by (simp only: h3 simp_thms)
qed

text \<open>
  C6. With the default configuration \<open>dt_ressarcimento_cliente\<close> becomes
  \<open>dtRessarcimentoCliente\<close>: the three segments all remain (the first has two letters,
  not three), the loop over the prefixes leaves \<open>dt\<close> as it is (the token \<open>dt\<close> is not
  strictly shorter than the segment), and the two later segments are capitalized.
\<close>

theorem toCamelCase_compound_prefix:
  "camelParts getDefaultConfig ''dt_ressarcimento_cliente''
     = [''dt'', ''ressarcimento'', ''cliente''] \<and>
   camelFirst (prefixesOf getDefaultConfig) ''dt'' = ''dt'' \<and>
   toCamelCase getDefaultConfig ''dt_ressarcimento_cliente'' = ''dtRessarcimentoCliente''"
  by code_simp




text \<open>
  C8. When the pattern \<open>PRIMARY KEY (...)\<close> matches nowhere in the text, in the model
  that \<open>parseDDL\<close> returns no column is a primary key, and the marker \<open>pkClass\<close> of the
  entity template is empty. Provided that neither the indentation nor a configured
  target type contains the character \<open>@\<close>, the entity that \<open>generateEntity\<close> renders from the
  model does not contain \<open>@IdClass\<close> at all.
\<close>

theorem parseDDL_without_primary_key:
  assumes "parseDDL cfg ddl = Inr m" and "regexSearch primaryKeyAt ddl = None"
  shows "(\<forall>c \<in> set (columns m). \<not> isId c) \<and> pkClass m = [] \<and>
     (CHR ''@'' \<notin> set (indentOf cfg @ numberDecimal cfg @ numberLarge cfg @ numberDefault cfg
                         @ stringDefault cfg @ dateDefault cfg) \<longrightarrow>
      (\<forall>entity. generateEntity cfg m = Inr entity \<longrightarrow> \<not> includesStr entity ''@IdClass''))"
proof -
  let ?P = "\<lambda>c. \<not> isId c \<and> CHR ''@'' \<notin> set (originalName c) \<and>
     CHR ''@'' \<notin> set (javaName c) \<and>
     javaType c \<in> {numberDecimal cfg, numberLarge cfg, numberDefault cfg, stringDefault cfg,
                   dateDefault cfg, ''String''}"
  have ls: "parseLines cfg [] (splitOn CHR 0x0A ddl) [] = Inr (columns m)"
    using parseDDL_Inr(1)[OF assms(1)] pksOf_none[OF assms(2)] by simp
  have all: "\<forall>c \<in> set (columns m). ?P c"
  proof (rule parseLines_all[OF ls])
    show "\<And>c. c \<in> set [] \<Longrightarrow> ?P c" by simp
    show "\<And>l c. parseLine cfg [] l = Inr (Some c) \<Longrightarrow> ?P c"
      using parseLine_column[of cfg "[]"] by fastforce
  qed
  then have ids: "\<forall>c \<in> set (columns m). \<not> isId c"
    by simp
  then have pk: "pkClass m = []"
    by (rule pkClass_no_id)
  have marker: "\<not> includesStr entity ''@IdClass''"
    if free: "CHR ''@'' \<notin> set (indentOf cfg @ numberDecimal cfg @ numberLarge cfg
       @ numberDefault cfg @ stringDefault cfg @ dateDefault cfg)"
      and entity: "generateEntity cfg m = Inr entity" for entity
  proof -
    have "atSafe (entityField (indentOf cfg) c)" if "c \<in> set (columns m)" for c
    proof -
      have c: "?P c" using all that by simp
      then have "CHR ''@'' \<notin> set (javaType c)" using free by auto
      then show ?thesis using c free by (intro entityField_safe) auto
    qed
    then have "atSafe (entityText cfg m)"
      using pk free tableOf_free[of ddl] toPascalCase_free[OF tableOf_free(2)[of ddl]]
        parseDDL_Inr(2,3,4)[OF assms(1)]
      by (intro entityText_safe) auto
    moreover have "entity = entityText cfg m"
      using entity by (simp add: generateEntity_def limited_Inr)
    ultimately show ?thesis
      using atSafe_not_IdClass by simp
  qed
  show ?thesis
    using ids pk marker by blast
qed

theorem parseDDL_without_primary_key_witness:
  "parseDDL getDefaultConfig
     ''CREATE TABLE TB_CLIENTE (\<newline>  NR_CLIENTE NUMBER(10) PRIMARY KEY,\<newline>  NM_CLIENTE VARCHAR2(100)\<newline>)''
     = Inr \<lparr>schema = ''dbo'', originalTableName = ''TB_CLIENTE'', className = ''Cliente'',
            columns =
              [\<lparr>originalName = ''NR_CLIENTE'', javaName = ''nrCliente'',
                 pascalName = ''NrCliente'', javaType = ''Long'',
                 colAnnotation = ''@Min(0) @Max(9999999999L)'', isId = False\<rparr>,
               \<lparr>originalName = ''NM_CLIENTE'', javaName = ''nmCliente'',
                 pascalName = ''NmCliente'', javaType = ''String'',
                 colAnnotation = ''@Size(max = 100)'', isId = False\<rparr>]\<rparr> \<and>
   regexSearch primaryKeyAt
     ''CREATE TABLE TB_CLIENTE (\<newline>  NR_CLIENTE NUMBER(10) PRIMARY KEY,\<newline>  NM_CLIENTE VARCHAR2(100)\<newline>)''
     = None \<and>
   CHR ''@'' \<notin> set (indentOf getDefaultConfig @ numberDecimal getDefaultConfig
     @ numberLarge getDefaultConfig @ numberDefault getDefaultConfig
     @ stringDefault getDefaultConfig @ dateDefault getDefaultConfig) \<and>
   (\<exists>entity. generateEntity getDefaultConfig
      \<lparr>schema = ''dbo'', originalTableName = ''TB_CLIENTE'', className = ''Cliente'',
       columns =
         [\<lparr>originalName = ''NR_CLIENTE'', javaName = ''nrCliente'',
            pascalName = ''NrCliente'', javaType = ''Long'',
            colAnnotation = ''@Min(0) @Max(9999999999L)'', isId = False\<rparr>,
          \<lparr>originalName = ''NM_CLIENTE'', javaName = ''nmCliente'',
            pascalName = ''NmCliente'', javaType = ''String'',
            colAnnotation = ''@Size(max = 100)'', isId = False\<rparr>]\<rparr> = Inr entity \<and>
      \<not> includesStr entity ''@IdClass'')"
proof -
  let ?ddl = "''CREATE TABLE TB_CLIENTE (\<newline>  NR_CLIENTE NUMBER(10) PRIMARY KEY,\<newline>  NM_CLIENTE VARCHAR2(100)\<newline>)''"
  let ?m = "\<lparr>schema = ''dbo'', originalTableName = ''TB_CLIENTE'', className = ''Cliente'',
       columns =
         [\<lparr>originalName = ''NR_CLIENTE'', javaName = ''nrCliente'',
            pascalName = ''NrCliente'', javaType = ''Long'',
            colAnnotation = ''@Min(0) @Max(9999999999L)'', isId = False\<rparr>,
          \<lparr>originalName = ''NM_CLIENTE'', javaName = ''nmCliente'',
            pascalName = ''NmCliente'', javaType = ''String'',
            colAnnotation = ''@Size(max = 100)'', isId = False\<rparr>]\<rparr>"
  have h0: "parseDDL getDefaultConfig ?ddl = Inr ?m"
    by code_simp
  have h1: "regexSearch primaryKeyAt ?ddl = None"
    by code_simp
  have h2: "CHR ''@'' \<notin> set (indentOf getDefaultConfig @ numberDecimal getDefaultConfig
     @ numberLarge getDefaultConfig @ numberDefault getDefaultConfig
     @ stringDefault getDefaultConfig @ dateDefault getDefaultConfig)"
    by code_simp
  have h3: "generateEntity getDefaultConfig ?m = Inr (entityText getDefaultConfig ?m)"
    by code_simp
  have "\<not> includesStr (entityText getDefaultConfig ?m) ''@IdClass''"
    using parseDDL_without_primary_key[OF h0 h1] h2 h3 by blast
  then show ?thesis
    using h0 h1 h2 h3 by blast
qed

text \<open>
  C9. A line of the text that, once trimmed, starts with \<open>PRIMARY KEY (\<close> matches the
  column pattern with the name \<open>PRIMARY\<close> and the type \<open>KEY\<close>, without precision and
  scale, and none of the four prefixes the line filter looks for is \<open>PRIMARY\<close>. Under the
  default configuration the type \<open>KEY\<close> falls through to \<open>String\<close> with the empty
  annotation, the body of the loop pushes a column \<open>PRIMARY\<close> with the field name
  \<open>primary\<close> for that line, and the model that \<open>parseDDL\<close> returns has this column.
\<close>

theorem parseDDL_primary_key_line:
  assumes "parseDDL getDefaultConfig ddl = Inr m"
    and "l \<in> set (splitOn CHR 0x0A ddl)" and "startsWith (trim l) ''PRIMARY KEY (''"
  shows "colMatch (trim l) = Some (''PRIMARY'', ''KEY'', None, None) \<and>
    \<not> (startsWith (trim l) ''CONSTRAINT'' \<or> startsWith (trim l) ''CREATE''
       \<or> startsWith (trim l) ''KEY'' \<or> startsWith (trim l) '')'') \<and>
    mapOracleType getDefaultConfig ''KEY'' None None = Inr \<lparr>java = ''String'', annotation = []\<rparr> \<and>
    parseLine getDefaultConfig pks l =
      Inr (Some \<lparr>originalName = ''PRIMARY'', javaName = ''primary'', pascalName = ''Primary'',
                 javaType = ''String'', colAnnotation = [],
                 isId = (''PRIMARY'' \<in> set pks)\<rparr>) \<and>
    (\<exists>c \<in> set (columns m).
       originalName c = ''PRIMARY'' \<and> javaName c = ''primary'' \<and>
       javaType c = ''String'' \<and> colAnnotation c = [])"
proof (intro conjI)
  show "colMatch (trim l) = Some (''PRIMARY'', ''KEY'', None, None)"
    using assms(3) by (rule colMatch_primary_key)
  obtain r where "trim l = ''PRIMARY KEY ('' @ r"
    using startsWith_append[OF assms(3)] by blast
  then show "\<not> (startsWith (trim l) ''CONSTRAINT'' \<or> startsWith (trim l) ''CREATE''
       \<or> startsWith (trim l) ''KEY'' \<or> startsWith (trim l) '')'')"
    by (simp add: startsWith_def)
  show "mapOracleType getDefaultConfig ''KEY'' None None = Inr \<lparr>java = ''String'', annotation = []\<rparr>"
    by code_simp
  show "parseLine getDefaultConfig pks l =
      Inr (Some \<lparr>originalName = ''PRIMARY'', javaName = ''primary'', pascalName = ''Primary'',
                 javaType = ''String'', colAnnotation = [],
                 isId = (''PRIMARY'' \<in> set pks)\<rparr>)"
    using assms(3) by (rule parseLine_primary_key)
  let ?c = "\<lparr>originalName = ''PRIMARY'', javaName = ''primary'', pascalName = ''Primary'',
            javaType = ''String'', colAnnotation = [], isId = (''PRIMARY'' \<in> set (pksOf ddl))\<rparr>"
  have "?c \<in> set (columns m)"
    using parseLines_member[OF parseDDL_Inr(1)[OF assms(1)] assms(2)]
      parseLine_primary_key[OF assms(3)] by blast
  then show "\<exists>c \<in> set (columns m).
       originalName c = ''PRIMARY'' \<and> javaName c = ''primary'' \<and>
       javaType c = ''String'' \<and> colAnnotation c = []"
    by (intro bexI[of _ ?c]) simp_all
qed

theorem parseDDL_primary_key_line_witness:
  "parseDDL getDefaultConfig ''CREATE TABLE T (\<newline>  ID NUMBER(5),\<newline>  PRIMARY KEY (ID)\<newline>)'' =
     Inr \<lparr>schema = ''dbo'', originalTableName = ''T'', className = ''T'',
          columns =
            [\<lparr>originalName = ''ID'', javaName = ''id'', pascalName = ''Id'',
               javaType = ''Integer'', colAnnotation = ''@Min(0) @Max(99999)'', isId = True\<rparr>,
             \<lparr>originalName = ''PRIMARY'', javaName = ''primary'', pascalName = ''Primary'',
               javaType = ''String'', colAnnotation = [], isId = False\<rparr>]\<rparr> \<and>
   ''  PRIMARY KEY (ID)'' \<in> set (splitOn CHR 0x0A ''CREATE TABLE T (\<newline>  ID NUMBER(5),\<newline>  PRIMARY KEY (ID)\<newline>)'') \<and>
   startsWith (trim ''  PRIMARY KEY (ID)'') ''PRIMARY KEY ('' \<and>
   colMatch (trim ''  PRIMARY KEY (ID)'') = Some (''PRIMARY'', ''KEY'', None, None)"
proof -
  have h0: "parseDDL getDefaultConfig ''CREATE TABLE T (\<newline>  ID NUMBER(5),\<newline>  PRIMARY KEY (ID)\<newline>)'' =
     Inr \<lparr>schema = ''dbo'', originalTableName = ''T'', className = ''T'',
          columns =
            [\<lparr>originalName = ''ID'', javaName = ''id'', pascalName = ''Id'',
               javaType = ''Integer'', colAnnotation = ''@Min(0) @Max(99999)'', isId = True\<rparr>,
             \<lparr>originalName = ''PRIMARY'', javaName = ''primary'', pascalName = ''Primary'',
               javaType = ''String'', colAnnotation = [], isId = False\<rparr>]\<rparr>"
    by code_simp
  have h1: "''  PRIMARY KEY (ID)'' \<in> set (splitOn CHR 0x0A ''CREATE TABLE T (\<newline>  ID NUMBER(5),\<newline>  PRIMARY KEY (ID)\<newline>)'')"
    by code_simp
  have h2: "startsWith (trim ''  PRIMARY KEY (ID)'') ''PRIMARY KEY (''"
    by code_simp
  show ?thesis
    using parseDDL_primary_key_line[OF h0 h1 h2] h0 h1 h2 by blast
qed

text \<open>
  C10. A type name that contains \<open>NUMBER\<close> (in any case) and comes without precision and
  scale, both groups being \<open>undefined\<close>: both are parsed as 0 and, under the default
  configuration, the result is \<open>Integer\<close> with the annotation \<open>@Min(0) @Max()\<close>, whose
  upper bound is the empty string. The column built from such a match carries that type
  and that annotation.
\<close>

theorem mapOracleType_number_without_precision:
  "includesStr (toUpperCase ty) ''NUMBER'' \<Longrightarrow>
   parseIntOr0 None = Num 0 \<and>
   repeatChar CHR ''9'' (parseIntOr0 None) = Inr [] \<and>
   mapOracleType getDefaultConfig ty None None =
     Inr \<lparr>java = ''Integer'', annotation = ''@Min(0) @Max()''\<rparr> \<and>
   (\<exists>c. buildColumn getDefaultConfig pks (colName, ty, None, None) = Inr c \<and>
        javaType c = ''Integer'' \<and> colAnnotation c = ''@Min(0) @Max()'')"
  using mapOracleType_bare_number[of ty]
  by (simp add: parseIntOr0_def repeatChar_def buildColumn_def maxStringLength_def)

theorem mapOracleType_number_without_precision_witness:
  "includesStr (toUpperCase ''number'') ''NUMBER'' \<and>
   colMatch ''FL_ATIVO number'' = Some (''FL_ATIVO'', ''number'', None, None) \<and>
   mapOracleType getDefaultConfig ''number'' None None =
     Inr \<lparr>java = ''Integer'', annotation = ''@Min(0) @Max()''\<rparr>"
proof -
  have h1: "includesStr (toUpperCase ''number'') ''NUMBER''"
    by code_simp
  have h2: "colMatch ''FL_ATIVO number'' = Some (''FL_ATIVO'', ''number'', None, None)"
    by code_simp
  show ?thesis
    using mapOracleType_number_without_precision[OF h1] h1 h2 by simp
qed

end
